theory Spec2Isabelle
  imports Complex_Main "HOL-Library.AList" "HOL-Library.Sublist"
begin

section \<open>Values of the Python run time\<close>

text \<open>
  Python's \<^verbatim>\<open>int\<close> is \<^typ>\<open>int\<close>. A \<^verbatim>\<open>float\<close> is modelled by an exact
  \<^typ>\<open>real\<close>: the source only adds, subtracts, multiplies and compares floats, and
  nothing proved below depends on rounding. A \<^verbatim>\<open>datetime\<close> is the number of
  microseconds since the epoch (its resolution), an unbounded \<^typ>\<open>int\<close>; a path is the
  list of its components.
\<close>

type_synonym path = "string list"
type_synonym datetime = int

datatype exn =
    KeyError string
  | RuntimeError string
  | OSError string
  | FileNotFoundError path
  | NotADirectoryError path
  | PermissionError path
  | CalledProcessError

fun join :: "string \<Rightarrow> string list \<Rightarrow> string" where
  "join sep [] = []"
| "join sep [x] = x"
| "join sep (x # y # ys) = x @ sep @ join sep (y # ys)"

definition path_str :: "path \<Rightarrow> string" where
  "path_str p = join ''/'' p"

definition digit_char :: "nat \<Rightarrow> char" where
  "digit_char d = ''0123456789'' ! d"

function str_nat :: "nat \<Rightarrow> string" where
  "str_nat n = (if n < 10 then [digit_char n] else str_nat (n div 10) @ [digit_char (n mod 10)])"
  by pat_completeness auto
termination
  by (relation "measure id") auto

declare str_nat.simps [simp del]

text \<open>\<^verbatim>\<open>str(i)\<close> and the format \<^verbatim>\<open>{i:03d}\<close> (zero padding to width three, sign included).\<close>

definition str_int :: "int \<Rightarrow> string" where
  "str_int i = (if i < 0 then ''-'' @ str_nat (nat (- i)) else str_nat (nat i))"

definition fmt_03d :: "int \<Rightarrow> string" where
  "fmt_03d i =
     (if i < 0 then ''-'' @ replicate (2 - length (str_nat (nat (- i)))) CHR ''0'' @ str_nat (nat (- i))
      else replicate (3 - length (str_nat (nat i))) CHR ''0'' @ str_nat (nat i))"

text \<open>\<^verbatim>\<open>str(e)\<close> of an exception, as stored in a task's \<^verbatim>\<open>error\<close> entry.\<close>

fun str_exn :: "exn \<Rightarrow> string" where
  "str_exn (KeyError k) = [CHR 0x27] @ k @ [CHR 0x27]"
| "str_exn (RuntimeError m) = m"
| "str_exn (OSError m) = m"
| "str_exn (FileNotFoundError p) =
     ''[Errno 2] No such file or directory: '' @ [CHR 0x27] @ path_str p @ [CHR 0x27]"
| "str_exn (NotADirectoryError p) =
     ''[Errno 20] Not a directory: '' @ [CHR 0x27] @ path_str p @ [CHR 0x27]"
| "str_exn (PermissionError p) =
     ''[Errno 13] Permission denied: '' @ [CHR 0x27] @ path_str p @ [CHR 0x27]"
| "str_exn CalledProcessError = ''Command returned non-zero exit status''"

section \<open>The file system\<close>

text \<open>
  A node is a directory or a file; both carry their modification time, a file its size and,
  when it is a ZIP container, the names of its members. \<open>locked\<close> lists the paths whose
  removal the operating system refuses (a file in use, a missing permission): the source
  guards its removals with \<^verbatim>\<open>try/except\<close> for them.
\<close>

datatype node = Dir datetime | File datetime nat "string list"

record fsys =
  entries :: "(path \<times> node) list"
  locked :: "path list"

definition path_exists :: "fsys \<Rightarrow> path \<Rightarrow> bool" where
  "path_exists fs p = (map_of (entries fs) p \<noteq> None)"

definition is_dir :: "fsys \<Rightarrow> path \<Rightarrow> bool" where
  "is_dir fs p = (case map_of (entries fs) p of Some (Dir _) \<Rightarrow> True | _ \<Rightarrow> False)"

definition is_file :: "fsys \<Rightarrow> path \<Rightarrow> bool" where
  "is_file fs p = (case map_of (entries fs) p of Some (File _ _ _) \<Rightarrow> True | _ \<Rightarrow> False)"

text \<open>\<^verbatim>\<open>p.stat().st_size\<close> and \<^verbatim>\<open>p.stat().st_mtime\<close>; every call of the source is guarded
  by an existence test, the missing case is written out all the same.\<close>

definition st_size :: "fsys \<Rightarrow> path \<Rightarrow> exn + nat" where
  "st_size fs p =
     (case map_of (entries fs) p of
        None \<Rightarrow> Inl (FileNotFoundError p)
      | Some (Dir _) \<Rightarrow> Inr 4096
      | Some (File _ n _) \<Rightarrow> Inr n)"

definition st_mtime :: "fsys \<Rightarrow> path \<Rightarrow> exn + datetime" where
  "st_mtime fs p =
     (case map_of (entries fs) p of
        None \<Rightarrow> Inl (FileNotFoundError p)
      | Some (Dir t) \<Rightarrow> Inr t
      | Some (File t _ _) \<Rightarrow> Inr t)"

text \<open>\<^verbatim>\<open>d.iterdir()\<close>: the children of \<open>d\<close>, in directory order.\<close>

definition iterdir :: "fsys \<Rightarrow> path \<Rightarrow> path list" where
  "iterdir fs d = filter (\<lambda>p. p \<noteq> [] \<and> butlast p = d) (map fst (entries fs))"

text \<open>\<^verbatim>\<open>sum(f.stat().st_size for f in d.rglob('*') if f.is_file())\<close>.\<close>

definition dir_size :: "fsys \<Rightarrow> path \<Rightarrow> nat" where
  "dir_size fs d =
     sum_list (map (\<lambda>(p, n). case n of File _ s _ \<Rightarrow> if strict_prefix d p then s else 0 | Dir _ \<Rightarrow> 0)
       (entries fs))"

text \<open>
  \<^verbatim>\<open>shutil.rmtree(d)\<close>: raises when \<open>d\<close> is missing or no directory, and when an entry at
  or below \<open>d\<close> is locked; otherwise \<open>d\<close> and everything below it are gone. A failing
  removal leaves the tree as it was (what Python may already have removed below \<open>d\<close>
  before it failed is not modelled; \<open>d\<close> itself persists either way).
\<close>

definition rmtree :: "fsys \<Rightarrow> path \<Rightarrow> exn + fsys" where
  "rmtree fs d =
     (case map_of (entries fs) d of
        None \<Rightarrow> Inl (FileNotFoundError d)
      | Some (File _ _ _) \<Rightarrow> Inl (NotADirectoryError d)
      | Some (Dir _) \<Rightarrow>
          (case filter (prefix d) (locked fs) of
             l # _ \<Rightarrow> Inl (PermissionError l)
           | [] \<Rightarrow> Inr (fs\<lparr>entries := filter (\<lambda>(p, n). \<not> prefix d p) (entries fs)\<rparr>)))"

text \<open>\<^verbatim>\<open>p.unlink()\<close>.\<close>

definition unlink :: "fsys \<Rightarrow> path \<Rightarrow> exn + fsys" where
  "unlink fs p =
     (case map_of (entries fs) p of
        None \<Rightarrow> Inl (FileNotFoundError p)
      | Some (Dir _) \<Rightarrow> Inl (PermissionError p)
      | Some (File _ _ _) \<Rightarrow>
          (if p \<in> set (locked fs) then Inl (PermissionError p)
           else Inr (fs\<lparr>entries := AList.delete p (entries fs)\<rparr>)))"

text \<open>Creating or overwriting a file needs its parent directory.\<close>

definition write_file :: "fsys \<Rightarrow> path \<Rightarrow> node \<Rightarrow> exn + fsys" where
  "write_file fs p n =
     (if p \<noteq> [] \<and> is_dir fs (butlast p) \<and> \<not> is_dir fs p
      then Inr (fs\<lparr>entries := AList.update p n (entries fs)\<rparr>)
      else Inl (FileNotFoundError p))"


text \<open>The directories of \<^verbatim>\<open>config.py\<close> (\<^verbatim>\<open>Path("./uploads")\<close>, \<^verbatim>\<open>Path("./outputs")\<close>).\<close>

definition upload_dir :: path where
  "upload_dir = [''uploads'']"

definition output_dir :: path where
  "output_dir = [''outputs'']"

section \<open>Tasks, the world and its environment\<close>

text \<open>One entry of \<^verbatim>\<open>VideoProcessor.active_tasks\<close>; the keys that are added later
  (\<^verbatim>\<open>archive\<close>, \<^verbatim>\<open>completed_at\<close>, \<^verbatim>\<open>error\<close>) are optional.\<close>

record task =
  status :: string
  progress :: int
  total :: int
  files :: "string list"
  created_at :: datetime
  last_accessed :: datetime
  task_dir :: string
  input_file :: string
  archive :: "string option"
  completed_at :: "datetime option"
  error :: "string option"

text \<open>
  The mutable state the code works on: the state of the global \<^verbatim>\<open>random\<close> module, the
  wall clock (what \<^verbatim>\<open>datetime.now()\<close> returns; the world's owner moves it between
  calls), the disk and the task store, a Python \<^verbatim>\<open>dict\<close> kept as an association list
  in insertion order.
\<close>

record 'g world =
  rng :: 'g
  clock :: datetime
  disk :: fsys
  active_tasks :: "(string \<times> task) list"

text \<open>
  What lies outside the repository is a parameter: the generator behind \<^verbatim>\<open>random\<close>
  (\<^verbatim>\<open>seed\<close>, \<^verbatim>\<open>_randbelow\<close>, \<^verbatim>\<open>random\<close>), \<^verbatim>\<open>str\<close> of a float,
  \<^verbatim>\<open>datetime.fromtimestamp(t).isoformat()\<close>, \<^verbatim>\<open>hashlib.sha256(s.encode()).hexdigest()\<close>,
  the encoder process (does it exit with status 0, and the size of the output file it
  leaves, if any), the hand-over of a blocking call to the worker pool by
  \<^verbatim>\<open>asyncio.to_thread\<close> (the message of the \<^verbatim>\<open>RuntimeError\<close> when the pool refuses
  the job) and the size of a written ZIP container (\<open>None\<close> when writing fails).
\<close>

record 'g env =
  rng_seed :: "int \<Rightarrow> 'g"
  rng_randbelow :: "nat \<Rightarrow> 'g \<Rightarrow> nat \<times> 'g"
  rng_random :: "'g \<Rightarrow> real \<times> 'g"
  float_str :: "real \<Rightarrow> string"
  isoformat :: "real \<Rightarrow> string"
  sha256_hex :: "string \<Rightarrow> string"
  ffmpeg :: "string list \<Rightarrow> fsys \<Rightarrow> bool \<times> nat option"
  to_thread_fault :: "'g world \<Rightarrow> string option"
  zip_bytes :: "(string \<times> nat) list \<Rightarrow> nat option"

text \<open>\<^verbatim>\<open>random.choice\<close>, \<^verbatim>\<open>random.uniform\<close> and \<^verbatim>\<open>random.randint\<close> as CPython
  defines them from the two primitive draws.\<close>

definition py_choice :: "'g env \<Rightarrow> 'a list \<Rightarrow> 'g \<Rightarrow> 'a \<times> 'g" where
  "py_choice E xs g = (case rng_randbelow E (length xs) g of (k, g') \<Rightarrow> (xs ! k, g'))"

definition py_uniform :: "'g env \<Rightarrow> real \<Rightarrow> real \<Rightarrow> 'g \<Rightarrow> real \<times> 'g" where
  "py_uniform E a b g = (case rng_random E g of (u, g') \<Rightarrow> (a + (b - a) * u, g'))"

definition py_randint :: "'g env \<Rightarrow> int \<Rightarrow> int \<Rightarrow> 'g \<Rightarrow> int \<times> 'g" where
  "py_randint E a b g = (case rng_randbelow E (nat (b - a + 1)) g of (k, g') \<Rightarrow> (a + int k, g'))"

section \<open>uniquifier.py\<close>

text \<open>The dictionary \<^verbatim>\<open>_generate_unique_params\<close> returns.\<close>

record params =
  fps :: real
  crf :: int
  preset :: string
  scale_factor :: real
  gop_size :: int
  audio_bitrate :: string
  audio_volume :: real
  creation_time :: string
  unique_id :: string
  copy_number :: int
  encoder_tag :: string
  pixel_format :: string
  b_frames :: int
  ref_frames :: int

text \<open>
  \<^verbatim>\<open>_generate_unique_params(copy_number, total_copies)\<close>. It reseeds the global
  generator, draws from it in the order of the source (the last three draws stand in the
  dictionary display) and reads the clock once; it returns the dictionary and the world
  with the generator's state after the last draw.
\<close>

definition generate_unique_params ::
  "'g env \<Rightarrow> int \<Rightarrow> int \<Rightarrow> 'g world \<Rightarrow> params \<times> 'g world" where
  "generate_unique_params E copy_no total_copies w =
    (let g0 = rng_seed E copy_no;
         fps_variations = [23.976, 24, 25, 29.97, 30, 30.01, 50, 59.94, 60];
         (fps_base, g1) = py_choice E fps_variations g0;
         (fps_offset, g2) = py_uniform E (- 0.001) 0.001 g1;
         (crf_variation, g3) = py_randint E 17 23 g2;
         preset_options = [''slower'', ''slow'', ''medium''];
         (preset', g4) = py_choice E preset_options g3;
         (scale_u, g5) = py_uniform E (- 0.005) 0.005 g4;
         scale_factor' = 1 + scale_u;
         (gop_size', g6) = py_randint E 240 260 g5;
         (audio_bitrate', g7) = py_choice E [''192k'', ''256k'', ''320k''] g6;
         (volume_u, g8) = py_uniform E (- 0.003) 0.003 g7;
         audio_volume' = 1.0 + volume_u;
         timestamp = real_of_int (clock w) / 1000000 + real_of_int copy_no;
         (r, g9) = rng_random E g8;
         unique_id' = sha256_hex E
           (str_int copy_no @ ''_'' @ float_str E timestamp @ ''_'' @ float_str E r);
         (pixel_format', g10) = py_choice E [''yuv420p'', ''yuv420p10le''] g9;
         (b_frames', g11) = py_randint E 2 4 g10;
         (ref_frames', g12) = py_randint E 3 5 g11
     in (\<lparr>fps = fps_base + fps_offset,
          crf = crf_variation,
          preset = preset',
          scale_factor = scale_factor',
          gop_size = gop_size',
          audio_bitrate = audio_bitrate',
          audio_volume = audio_volume',
          creation_time = isoformat E timestamp,
          unique_id = unique_id',
          copy_number = copy_no,
          encoder_tag = ''UniqueEncoder_v'' @ str_int copy_no,
          pixel_format = pixel_format',
          b_frames = b_frames',
          ref_frames = ref_frames'\<rparr>, w\<lparr>rng := g12\<rparr>))"

text \<open>The three steps of the video filter chain of \<^verbatim>\<open>_build_ffmpeg_command\<close>.\<close>

definition scale_filter :: "'g env \<Rightarrow> params \<Rightarrow> string" where
  "scale_filter E p =
     ''scale=iw*'' @ float_str E (scale_factor p) @ '':ih*'' @ float_str E (scale_factor p)
       @ '':flags=lanczos''"

definition crop_filter :: "'g env \<Rightarrow> real \<Rightarrow> real \<Rightarrow> string" where
  "crop_filter E shift_x shift_y =
     ''crop=iw-1:ih-1:'' @ float_str E shift_x @ '':'' @ float_str E shift_y"

definition pad_filter :: string where
  "pad_filter = ''pad=iw+1:ih+1:0:0''"

text \<open>The list \<^verbatim>\<open>video_filters\<close> when the command is assembled, with the two draws of
  the sub-pixel shift.\<close>

definition video_filters :: "'g env \<Rightarrow> params \<Rightarrow> 'g world \<Rightarrow> string list \<times> 'g world" where
  "video_filters E p w =
    (let vf0 = (if \<bar>scale_factor p - 1.0\<bar> > 0.0001 then [scale_filter E p] else []);
         (shift_x, g1) = py_uniform E (- 0.5) 0.5 (rng w);
         (shift_y, g2) = py_uniform E (- 0.5) 0.5 g1
     in (vf0 @ [crop_filter E shift_x shift_y] @ [pad_filter], w\<lparr>rng := g2\<rparr>))"

text \<open>\<^verbatim>\<open>_build_ffmpeg_command(input_path, output_path, params)\<close>.\<close>

definition build_ffmpeg_command ::
  "'g env \<Rightarrow> path \<Rightarrow> path \<Rightarrow> params \<Rightarrow> 'g world \<Rightarrow> string list \<times> 'g world" where
  "build_ffmpeg_command E input_path output_path p w =
    (let command = [''ffmpeg'', ''-i'', path_str input_path, ''-y''];
         (vf, w') = video_filters E p w;
         command = command @ (if vf \<noteq> [] then [''-vf'', join '','' vf] else []);
         command = command @
           [''-c:v'', ''libx264'',
            ''-preset'', preset p,
            ''-crf'', str_int (crf p),
            ''-g'', str_int (gop_size p),
            ''-bf'', str_int (b_frames p),
            ''-refs'', str_int (ref_frames p),
            ''-pix_fmt'', pixel_format p];
         command = command @ [''-r'', float_str E (fps p)];
         command = command @
           [''-c:a'', ''aac'',
            ''-b:a'', audio_bitrate p,
            ''-af'', ''volume='' @ float_str E (audio_volume p)];
         command = command @
           [''-metadata'', ''creation_time='' @ creation_time p,
            ''-metadata'', ''encoder='' @ encoder_tag p,
            ''-metadata'', ''comment=Unique_Copy_'' @ str_int (copy_number p),
            ''-metadata'', ''unique_id='' @ unique_id p,
            ''-metadata'', ''title=Video_'' @ fmt_03d (copy_number p)];
         command = command @ [''-movflags'', ''+faststart'', ''-fflags'', ''+genpts''];
         command = command @ [path_str output_path]
     in (command, w'))"

text \<open>
  \<^verbatim>\<open>create_unique_copy(input_path, output_path, copy_number, total_copies)\<close>. The encoder
  writes nothing but its output file. \<^verbatim>\<open>subprocess.run(..., check=True)\<close> raises on a
  non-zero exit status and both \<^verbatim>\<open>except\<close> clauses return \<^verbatim>\<open>False\<close>, so the result is
  \<^verbatim>\<open>output_path.exists()\<close> after a clean exit and \<^verbatim>\<open>False\<close> otherwise.
\<close>

definition create_unique_copy ::
  "'g env \<Rightarrow> path \<Rightarrow> path \<Rightarrow> int \<Rightarrow> int \<Rightarrow> 'g world \<Rightarrow> bool \<times> 'g world" where
  "create_unique_copy E input_path output_path copy_no total_copies w =
    (let (p, w1) = generate_unique_params E copy_no total_copies w;
         (command, w2) = build_ffmpeg_command E input_path output_path p w1;
         (exit_ok, written) = ffmpeg E command (disk w2);
         fs' = (case written of
                  None \<Rightarrow> disk w2
                | Some n \<Rightarrow>
                    (case write_file (disk w2) output_path (File (clock w2) n []) of
                       Inl e \<Rightarrow> disk w2
                     | Inr fs \<Rightarrow> fs))
     in (if exit_ok then path_exists fs' output_path else False, w2\<lparr>disk := fs'\<rparr>))"

text \<open>The command line \<^verbatim>\<open>create_unique_copy\<close> runs for copy \<open>copy_no\<close>.\<close>

definition command_of :: "'g env \<Rightarrow> path \<Rightarrow> path \<Rightarrow> int \<Rightarrow> int \<Rightarrow> 'g world \<Rightarrow> string list" where
  "command_of E input_path output_path copy_no total_copies w =
     fst (build_ffmpeg_command E input_path output_path
            (fst (generate_unique_params E copy_no total_copies w))
            (snd (generate_unique_params E copy_no total_copies w)))"

section \<open>video\_processor.py\<close>

text \<open>\<^verbatim>\<open>self.active_tasks[task_id][...] = ...\<close> and \<^verbatim>\<open>self.active_tasks[task_id].update(...)\<close>:
  a \<^verbatim>\<open>KeyError\<close> when the store has no such task.\<close>

definition task_update :: "string \<Rightarrow> (task \<Rightarrow> task) \<Rightarrow> 'g world \<Rightarrow> exn + 'g world" where
  "task_update task_id f w =
     (case map_of (active_tasks w) task_id of
        None \<Rightarrow> Inl (KeyError task_id)
      | Some t \<Rightarrow> Inr (w\<lparr>active_tasks := AList.update task_id (f t) (active_tasks w)\<rparr>))"

text \<open>
  \<^verbatim>\<open>process_video(input_file, copies_count, output_format)\<close>, up to the point where it
  schedules \<^verbatim>\<open>_process_task\<close>; \<open>task_id\<close> is the fresh \<^verbatim>\<open>uuid4\<close>.
  \<^verbatim>\<open>task_dir.mkdir(exist_ok=True)\<close> needs the parent directory.
\<close>

definition process_video ::
  "string \<Rightarrow> path \<Rightarrow> int \<Rightarrow> 'g world \<Rightarrow> exn + 'g world" where
  "process_video task_id input_path copies_count w =
    (let tdir = output_dir @ [task_id];
         made = (if is_dir (disk w) tdir then Inr (disk w)
                 else if is_dir (disk w) output_dir \<and> \<not> path_exists (disk w) tdir
                 then Inr ((disk w)\<lparr>entries := entries (disk w) @ [(tdir, Dir (clock w))]\<rparr>)
                 else Inl (FileNotFoundError tdir))
     in case made of
          Inl e \<Rightarrow> Inl e
        | Inr fs \<Rightarrow>
            Inr (w\<lparr>disk := fs,
                   active_tasks := AList.update task_id
                     \<lparr>status = ''processing'',
                      progress = 0,
                      total = copies_count,
                      files = [],
                      created_at = clock w,
                      last_accessed = clock w,
                      task_dir = path_str tdir,
                      input_file = path_str input_path,
                      archive = None,
                      completed_at = None,
                      error = None\<rparr> (active_tasks w)\<rparr>))"

text \<open>The name of copy \<open>i\<close>: \<^verbatim>\<open>f"video_{i:03d}.{output_format}"\<close>.\<close>

definition output_filename :: "int \<Rightarrow> string \<Rightarrow> string" where
  "output_filename i output_format = ''video_'' @ fmt_03d i @ ''.'' @ output_format"

text \<open>
  The \<^verbatim>\<open>for i in range(1, copies_count + 1)\<close> loop of \<^verbatim>\<open>_process_task\<close>, over the list
  of the indices still to do, with the local list \<^verbatim>\<open>created_files\<close>. It returns the
  exception that left the loop, if any. The store is not touched between the append and
  the three assignments, so the list the task shares with the loop is written as a copy.
\<close>

fun process_copies ::
  "'g env \<Rightarrow> string \<Rightarrow> path \<Rightarrow> int \<Rightarrow> path \<Rightarrow> string \<Rightarrow> int list \<Rightarrow> string list \<Rightarrow> 'g world
     \<Rightarrow> exn option \<times> string list \<times> 'g world" where
  "process_copies E task_id input_path copies_count tdir output_format [] created_files w =
     (None, created_files, w)"
| "process_copies E task_id input_path copies_count tdir output_format (i # rest) created_files w =
     (let output_path = tdir @ [output_filename i output_format]
      in case to_thread_fault E w of
           Some m \<Rightarrow> (Some (RuntimeError m), created_files, w)
         | None \<Rightarrow>
             (let (success, w1) = create_unique_copy E input_path output_path i copies_count w;
                  created_files' =
                    (if success \<and> path_exists (disk w1) output_path
                     then created_files @ [output_filename i output_format]
                     else created_files)
              in case task_update task_id
                        (\<lambda>t. t\<lparr>progress := i, files := created_files', last_accessed := clock w1\<rparr>) w1 of
                   Inl e \<Rightarrow> (Some e, created_files', w1)
                 | Inr w2 \<Rightarrow>
                     process_copies E task_id input_path copies_count tdir output_format rest
                       created_files' w2))"

text \<open>
  \<^verbatim>\<open>_create_archive(task_id, task_dir, files)\<close>. Opening the container for writing
  creates it; every listed name that exists is written as a member; any exception
  (the hand-over to the worker pool, the open, the write) ends in \<^verbatim>\<open>return None\<close>.
\<close>

definition archive_name :: "string \<Rightarrow> string" where
  "archive_name task_id = ''videos_'' @ task_id @ ''.zip''"

definition create_archive ::
  "'g env \<Rightarrow> string \<Rightarrow> path \<Rightarrow> string list \<Rightarrow> 'g world \<Rightarrow> path option \<times> 'g world" where
  "create_archive E task_id tdir file_names w =
    (let archive_path = tdir @ [archive_name task_id]
     in case to_thread_fault E w of
          Some m \<Rightarrow> (None, w)
        | None \<Rightarrow>
            (case write_file (disk w) archive_path (File (clock w) 0 []) of
               Inl e \<Rightarrow> (None, w)
             | Inr fs1 \<Rightarrow>
                 (let members = filter (\<lambda>filename. path_exists fs1 (tdir @ [filename])) file_names;
                      sizes = map (\<lambda>filename.
                                (filename, case st_size fs1 (tdir @ [filename]) of Inl e \<Rightarrow> 0 | Inr n \<Rightarrow> n))
                              members
                  in case zip_bytes E sizes of
                       None \<Rightarrow> (None, w\<lparr>disk := fs1\<rparr>)
                     | Some n \<Rightarrow>
                         (let fs2 = fs1\<lparr>entries :=
                                AList.update archive_path (File (clock w) n members) (entries fs1)\<rparr>
                          in (if path_exists fs2 archive_path then Some archive_path else None,
                              w\<lparr>disk := fs2\<rparr>)))))"

text \<open>\<^verbatim>\<open>cleanup_file(file_path)\<close> of \<^verbatim>\<open>utils/file_handler.py\<close>.\<close>

definition cleanup_file :: "fsys \<Rightarrow> path \<Rightarrow> fsys" where
  "cleanup_file fs file_path =
     (if path_exists fs file_path
      then (case unlink fs file_path of Inl e \<Rightarrow> fs | Inr fs' \<Rightarrow> fs')
      else fs)"

text \<open>The body of the \<^verbatim>\<open>try\<close> of \<^verbatim>\<open>_process_task\<close> after the loop: the archive, the
  terminal status, the input file.\<close>

definition finish_task ::
  "'g env \<Rightarrow> string \<Rightarrow> path \<Rightarrow> path \<Rightarrow> string list \<Rightarrow> 'g world \<Rightarrow> exn option \<times> 'g world" where
  "finish_task E task_id input_path tdir created_files w =
    (let (raised, w1) =
           (if created_files \<noteq> [] then
              (case create_archive E task_id tdir created_files w of
                 (Some archive_path, w') \<Rightarrow>
                   (if path_exists (disk w') archive_path
                    then (case task_update task_id (\<lambda>t. t\<lparr>archive := Some (last archive_path)\<rparr>) w' of
                            Inl e \<Rightarrow> (Some e, w')
                          | Inr w'' \<Rightarrow> (None, w''))
                    else (None, w'))
               | (None, w') \<Rightarrow> (None, w'))
            else (None, w))
     in case raised of
          Some e \<Rightarrow> (Some e, w1)
        | None \<Rightarrow>
            (case task_update task_id
                    (\<lambda>t. t\<lparr>status := ''completed'', completed_at := Some (clock w1),
                           last_accessed := clock w1\<rparr>) w1 of
               Inl e \<Rightarrow> (Some e, w1)
             | Inr w2 \<Rightarrow>
                 (None, if path_exists (disk w2) input_path
                        then w2\<lparr>disk := cleanup_file (disk w2) input_path\<rparr> else w2)))"

text \<open>The whole \<^verbatim>\<open>try\<close> block: the exception that leaves it, if any, and the world then.\<close>

definition process_body ::
  "'g env \<Rightarrow> string \<Rightarrow> path \<Rightarrow> int \<Rightarrow> path \<Rightarrow> string \<Rightarrow> 'g world \<Rightarrow> exn option \<times> 'g world" where
  "process_body E task_id input_path copies_count tdir output_format w =
    (case process_copies E task_id input_path copies_count tdir output_format [1..copies_count] [] w of
       (Some e, created_files, w1) \<Rightarrow> (Some e, w1)
     | (None, created_files, w1) \<Rightarrow> finish_task E task_id input_path tdir created_files w1)"

text \<open>
  \<^verbatim>\<open>_process_task\<close>: the \<^verbatim>\<open>try\<close> block and its \<^verbatim>\<open>except Exception\<close> handler. The
  handler indexes the store again, so it raises in its turn when the task is gone; the
  result is the exception that leaves the coroutine, if any.
\<close>

definition process_task ::
  "'g env \<Rightarrow> string \<Rightarrow> path \<Rightarrow> int \<Rightarrow> path \<Rightarrow> string \<Rightarrow> 'g world \<Rightarrow> exn option \<times> 'g world" where
  "process_task E task_id input_path copies_count tdir output_format w =
    (case process_body E task_id input_path copies_count tdir output_format w of
       (None, w1) \<Rightarrow> (None, w1)
     | (Some e, w1) \<Rightarrow>
         (case task_update task_id
                 (\<lambda>t. t\<lparr>status := ''failed'', error := Some (str_exn e), last_accessed := clock w1\<rparr>) w1 of
            Inl e' \<Rightarrow> (Some e', w1)
          | Inr w2 \<Rightarrow>
              (None, if path_exists (disk w2) input_path
                     then w2\<lparr>disk := cleanup_file (disk w2) input_path\<rparr> else w2)))"


definition get_task_files :: "string \<Rightarrow> 'g world \<Rightarrow> path option \<times> 'g world" where
  "get_task_files task_id w =
     (let w' = (case map_of (active_tasks w) task_id of
                  None \<Rightarrow> w
                | Some t \<Rightarrow>
                    w\<lparr>active_tasks :=
                        AList.update task_id (t\<lparr>last_accessed := clock w\<rparr>) (active_tasks w)\<rparr>);
          tdir = output_dir @ [task_id]
      in (if path_exists (disk w') tdir then Some tdir else None, w'))"

text \<open>
  \<^verbatim>\<open>cleanup_old_tasks(hours)\<close>, first loop: over the items of the store, collecting
  \<^verbatim>\<open>tasks_to_remove\<close>, \<^verbatim>\<open>cleaned_count\<close> and \<^verbatim>\<open>freed_space\<close>. The task id is
  appended before the directory is looked at; \<^verbatim>\<open>freed_space\<close> is raised before
  \<^verbatim>\<open>rmtree\<close> runs; an exception of \<^verbatim>\<open>rmtree\<close> is logged and the loop goes on.
  (\<^verbatim>\<open>task_data.get('last_accessed', task_data['created_at'])\<close> is \<^verbatim>\<open>last_accessed\<close>: every
  task has both keys.)
\<close>

fun sweep_tasks ::
  "datetime \<Rightarrow> (string \<times> task) list \<Rightarrow> string list \<times> nat \<times> nat \<times> fsys
     \<Rightarrow> string list \<times> nat \<times> nat \<times> fsys" where
  "sweep_tasks cutoff_time [] acc = acc"
| "sweep_tasks cutoff_time ((task_id, task_data) # rest) (tasks_to_remove, cleaned_count, freed_space, fs) =
     (if last_accessed task_data < cutoff_time then
        (let tasks_to_remove' = tasks_to_remove @ [task_id];
             tdir = output_dir @ [task_id]
         in if path_exists fs tdir then
              (let sz = dir_size fs tdir
               in case rmtree fs tdir of
                    Inl e \<Rightarrow>
                      sweep_tasks cutoff_time rest (tasks_to_remove', cleaned_count, freed_space + sz, fs)
                  | Inr fs' \<Rightarrow>
                      sweep_tasks cutoff_time rest
                        (tasks_to_remove', cleaned_count + 1, freed_space + sz, fs'))
            else sweep_tasks cutoff_time rest (tasks_to_remove', cleaned_count, freed_space, fs))
      else sweep_tasks cutoff_time rest (tasks_to_remove, cleaned_count, freed_space, fs))"

text \<open>Second loop: \<^verbatim>\<open>del self.active_tasks[task_id]\<close> for the collected ids.\<close>

fun remove_tasks :: "string list \<Rightarrow> (string \<times> task) list \<Rightarrow> (string \<times> task) list" where
  "remove_tasks [] tasks = tasks"
| "remove_tasks (task_id # rest) tasks = remove_tasks rest (AList.delete task_id tasks)"

text \<open>Third loop: the directories under the output root that the store does not know.\<close>

fun sweep_orphans ::
  "datetime \<Rightarrow> (string \<times> task) list \<Rightarrow> path list \<Rightarrow> nat \<times> nat \<times> fsys \<Rightarrow> nat \<times> nat \<times> fsys" where
  "sweep_orphans cutoff_time tasks [] acc = acc"
| "sweep_orphans cutoff_time tasks (tdir # rest) (cleaned_count, freed_space, fs) =
     (if is_dir fs tdir \<and> map_of tasks (last tdir) = None then
        (case st_mtime fs tdir of
           Inl e \<Rightarrow> sweep_orphans cutoff_time tasks rest (cleaned_count, freed_space, fs)
         | Inr mtime \<Rightarrow>
             (if mtime < cutoff_time then
                (let sz = dir_size fs tdir
                 in case rmtree fs tdir of
                      Inl e \<Rightarrow> sweep_orphans cutoff_time tasks rest (cleaned_count, freed_space, fs)
                    | Inr fs' \<Rightarrow>
                        sweep_orphans cutoff_time tasks rest (cleaned_count + 1, freed_space + sz, fs'))
              else sweep_orphans cutoff_time tasks rest (cleaned_count, freed_space, fs)))
      else sweep_orphans cutoff_time tasks rest (cleaned_count, freed_space, fs))"

text \<open>Fourth loop: the files under the upload root.\<close>

fun sweep_uploads :: "datetime \<Rightarrow> path list \<Rightarrow> nat \<times> fsys \<Rightarrow> nat \<times> fsys" where
  "sweep_uploads cutoff_time [] acc = acc"
| "sweep_uploads cutoff_time (upload_file # rest) (freed_space, fs) =
     (if is_file fs upload_file then
        (case st_mtime fs upload_file of
           Inl e \<Rightarrow> sweep_uploads cutoff_time rest (freed_space, fs)
         | Inr mtime \<Rightarrow>
             (if mtime < cutoff_time then
                (case st_size fs upload_file of
                   Inl e \<Rightarrow> sweep_uploads cutoff_time rest (freed_space, fs)
                 | Inr file_size \<Rightarrow>
                     (case unlink fs upload_file of
                        Inl e \<Rightarrow> sweep_uploads cutoff_time rest (freed_space, fs)
                      | Inr fs' \<Rightarrow> sweep_uploads cutoff_time rest (freed_space + file_size, fs')))
              else sweep_uploads cutoff_time rest (freed_space, fs)))
      else sweep_uploads cutoff_time rest (freed_space, fs))"

text \<open>\<^verbatim>\<open>cleanup_old_tasks(hours)\<close>: \<^verbatim>\<open>(cleaned_count, freed_space)\<close> and the world after.
  \<^verbatim>\<open>timedelta(hours=hours)\<close> is \<open>hours\<close> times 3600 seconds.\<close>

definition cleanup_old_tasks :: "int \<Rightarrow> 'g world \<Rightarrow> (nat \<times> nat) \<times> 'g world" where
  "cleanup_old_tasks hours w =
    (let cutoff_time = clock w - hours * 3600000000;
         (tasks_to_remove, cleaned1, freed1, fs1) =
            sweep_tasks cutoff_time (active_tasks w) ([], 0, 0, disk w);
         tasks' = remove_tasks tasks_to_remove (active_tasks w);
         (cleaned2, freed2, fs2) =
            (if path_exists fs1 output_dir
             then sweep_orphans cutoff_time tasks' (iterdir fs1 output_dir) (cleaned1, freed1, fs1)
             else (cleaned1, freed1, fs1));
         (freed3, fs3) =
            (if path_exists fs2 upload_dir
             then sweep_uploads cutoff_time (iterdir fs2 upload_dir) (freed2, fs2)
             else (freed2, fs2))
     in ((cleaned2, freed3), w\<lparr>disk := fs3, active_tasks := tasks'\<rparr>))"

section \<open>main.py\<close>

text \<open>
  An \<^verbatim>\<open>HTTPException\<close> carries its status code and which of the endpoint's checks
  raised it (the \<^verbatim>\<open>detail\<close> texts of the source are Russian sentences); an
  exception that no handler catches is answered with status 500.
\<close>

datatype detail =
    TaskNotFound
  | TaskNotCompleted string
  | ArchiveNotReady
  | TaskDirNotFound
  | ArchiveNotOnDisk
  | ArchiveEmpty
  | FileNotFound
  | Unhandled exn

datatype http_error = HTTPException int detail


record file_response =
  fr_path :: path
  fr_filename :: string
  fr_media_type :: string





text \<open>\<^verbatim>\<open>GET /api/download/{task_id}/{filename}\<close>.\<close>

definition download_file ::
  "string \<Rightarrow> string \<Rightarrow> 'g world \<Rightarrow> (http_error + file_response) \<times> 'g world" where
  "download_file task_id filename w =
    (case get_task_files task_id w of
       (None, w') \<Rightarrow> (Inl (HTTPException 404 TaskNotFound), w')
     | (Some tdir, w') \<Rightarrow>
         (let file_path = tdir @ [filename]
          in if \<not> path_exists (disk w') file_path
             then (Inl (HTTPException 404 FileNotFound), w')
             else (Inr \<lparr>fr_path = file_path, fr_filename = filename,
                        fr_media_type = ''application/octet-stream''\<rparr>, w')))"


text \<open>\<^verbatim>\<open>POST /api/cleanup\<close>.\<close>

definition manual_cleanup :: "int \<Rightarrow> 'g world \<Rightarrow> (nat \<times> nat) \<times> 'g world" where
  "manual_cleanup hours w = cleanup_old_tasks hours w"

section \<open>A concrete environment\<close>

text \<open>
  The theorems below hold for every environment. To run the model on concrete inputs the
  parameters need values; these are small stand-ins with the interface of the real ones: a
  counter for the generator, a fixed-point rendering of floats, the UTC calendar for
  \<^verbatim>\<open>isoformat\<close>, the tagged preimage for the digest, an encoder that always succeeds
  and leaves 1000 bytes, a worker pool that takes every job, and a container of 22 bytes
  plus its members.
\<close>

definition zpad :: "nat \<Rightarrow> nat \<Rightarrow> string" where
  "zpad k n = replicate (k - length (str_nat n)) CHR ''0'' @ str_nat n"

definition demo_float_str :: "real \<Rightarrow> string" where
  "demo_float_str x =
     (let m = \<lfloor>\<bar>x\<bar> * 1000000\<rfloor>
      in (if x < 0 then ''-'' else []) @ str_nat (nat (m div 1000000)) @ ''.''
           @ zpad 6 (nat (m mod 1000000)))"

definition civil_from_days :: "int \<Rightarrow> int \<times> int \<times> int" where
  "civil_from_days days =
     (let z = days + 719468;
          era = z div 146097;
          doe = z - era * 146097;
          yoe = (doe - doe div 1460 + doe div 36524 - doe div 146096) div 365;
          doy = doe - (365 * yoe + yoe div 4 - yoe div 100);
          mp = (5 * doy + 2) div 153;
          d = doy - (153 * mp + 2) div 5 + 1;
          m = (if mp < 10 then mp + 3 else mp - 9);
          y = yoe + era * 400 + (if m \<le> 2 then 1 else 0)
      in (y, m, d))"

definition isoformat_utc :: "real \<Rightarrow> string" where
  "isoformat_utc ts =
     (let us = round (ts * 1000000);
          (y, m, d) = civil_from_days (us div 86400000000);
          r = us mod 86400000000;
          frac = r mod 1000000;
          s = r div 1000000
      in zpad 4 (nat y) @ ''-'' @ zpad 2 (nat m) @ ''-'' @ zpad 2 (nat d) @ ''T''
           @ zpad 2 (nat (s div 3600)) @ '':'' @ zpad 2 (nat (s mod 3600 div 60)) @ '':''
           @ zpad 2 (nat (s mod 60))
           @ (if frac = 0 then [] else ''.'' @ zpad 6 (nat frac)))"

definition demo_env :: "nat env" where
  "demo_env =
     \<lparr>rng_seed = (\<lambda>a. nat \<bar>a\<bar>),
      rng_randbelow = (\<lambda>n g. (g mod n, Suc g)),
      rng_random = (\<lambda>g. (real (g mod 10) / 10, Suc g)),
      float_str = demo_float_str,
      isoformat = isoformat_utc,
      sha256_hex = (\<lambda>s. ''sha256('' @ s @ '')''),
      ffmpeg = (\<lambda>command fs. (True, Some 1000)),
      to_thread_fault = (\<lambda>w. None),
      zip_bytes = (\<lambda>members. Some (22 + sum_list (map snd members)))\<rparr>"

text \<open>A finished task of one copy with its archive, last touched at \<open>accessed\<close>, and the
  directory such a task owns on disk.\<close>

definition demo_task :: "string \<Rightarrow> datetime \<Rightarrow> task" where
  "demo_task task_id accessed =
     \<lparr>status = ''completed'',
      progress = 1,
      total = 1,
      files = [''video_001.mp4''],
      created_at = accessed,
      last_accessed = accessed,
      task_dir = path_str (output_dir @ [task_id]),
      input_file = ''uploads/in.mp4'',
      archive = Some (archive_name task_id),
      completed_at = Some accessed,
      error = None\<rparr>"

definition demo_task_files :: "string \<Rightarrow> datetime \<Rightarrow> (path \<times> node) list" where
  "demo_task_files task_id t =
     [(output_dir @ [task_id], Dir t),
      (output_dir @ [task_id, ''video_001.mp4''], File t 1000 []),
      (output_dir @ [task_id, archive_name task_id], File t 1022 [''video_001.mp4''])]"

text \<open>A day after the epoch: task \<open>old\<close> was last touched one microsecond before the
  24-hour cutoff, task \<open>new\<close> one microsecond after it.\<close>

definition sweep_world :: "nat world" where
  "sweep_world =
     \<lparr>rng = 0,
      clock = 86400000000,
      disk = \<lparr>entries = [(output_dir, Dir 0), (upload_dir, Dir 0)]
                @ demo_task_files ''old'' (- 1) @ demo_task_files ''new'' 1,
              locked = []\<rparr>,
      active_tasks = [(''old'', demo_task ''old'' (- 1)), (''new'', demo_task ''new'' 1)]\<rparr>"


text \<open>The same environment with an encoder that succeeds, and leaves its output, exactly
  for the output paths that satisfy \<open>good\<close> (the output path is the last argument of
  the command line).\<close>

definition scripted_env :: "(string \<Rightarrow> bool) \<Rightarrow> nat env" where
  "scripted_env good =
     demo_env\<lparr>ffmpeg := (\<lambda>command fs. if good (last command) then (True, Some 1000) else (False, None))\<rparr>"

text \<open>A world with an uploaded file and no task yet, and the job submitted in it:
  three copies of \<^verbatim>\<open>uploads/in.mp4\<close> as task \<open>job\<close>.\<close>

definition upload_world :: "nat world" where
  "upload_world =
     \<lparr>rng = 0,
      clock = 0,
      disk = \<lparr>entries = [(output_dir, Dir 0), (upload_dir, Dir 0),
                         (upload_dir @ [''in.mp4''], File 0 5000 [])],
              locked = []\<rparr>,
      active_tasks = []\<rparr>"

definition job_world :: "nat world" where
  "job_world =
     (case process_video ''job'' (upload_dir @ [''in.mp4'']) 3 upload_world of
        Inl e \<Rightarrow> upload_world
      | Inr w \<Rightarrow> w)"

definition empty_world :: "nat world" where
  "empty_world =
     \<lparr>rng = 0, clock = 0, disk = \<lparr>entries = [], locked = []\<rparr>, active_tasks = []\<rparr>"

section \<open>The parameter generator and the encoder command\<close>

lemma creation_time_generate:
  "creation_time (fst (generate_unique_params E copy_no total_copies w)) =
     isoformat E (real_of_int (clock w) / 1000000 + real_of_int copy_no)"
  by (simp add: generate_unique_params_def Let_def split_beta)

text \<open>
  C9. The recipe does not depend on \<^verbatim>\<open>total_copies\<close>: from the same world (clock and
  generator state) two calls that differ only in that argument return the same dictionary
  and leave the same world; the argument is never read.
\<close>

theorem total_copies_never_read:
  "generate_unique_params E copy_no total1 w = generate_unique_params E copy_no total2 w"
  by (simp add: generate_unique_params_def)

text \<open>
  C1, as the code has it. Two calls with the same copy index, from any two worlds (any
  generator states, any \<^verbatim>\<open>total_copies\<close>): when the clock reads the same at both calls
  the dictionaries are equal; when it does not, they are equal in every entry but
  \<^verbatim>\<open>creation_time\<close> and \<^verbatim>\<open>unique_id\<close>, which are computed from
  \<^verbatim>\<open>datetime.now()\<close>; the generator is left in the same state either way.
\<close>

theorem recipe_determined_by_index_and_clock:
  "fst (generate_unique_params E copy_no total1 w1) =
     fst (generate_unique_params E copy_no total2 (w2\<lparr>clock := clock w1\<rparr>))
   \<and> (fst (generate_unique_params E copy_no total1 w1))\<lparr>creation_time := a, unique_id := b\<rparr> =
     (fst (generate_unique_params E copy_no total2 w2))\<lparr>creation_time := a, unique_id := b\<rparr>
   \<and> rng (snd (generate_unique_params E copy_no total1 w1)) =
     rng (snd (generate_unique_params E copy_no total2 w2))"
  by (simp add: generate_unique_params_def Let_def split_beta)

text \<open>
  C1 as stated fails: copy 1 of 3, generated when the clock reads 0 and again one second
  later, carries two different creation timestamps, so the two recipes differ.
\<close>

theorem recipe_changes_with_clock:
  "creation_time (fst (generate_unique_params demo_env 1 3 (empty_world\<lparr>clock := 0\<rparr>)))
     = ''1970-01-01T00:00:01''
   \<and> creation_time (fst (generate_unique_params demo_env 1 3 (empty_world\<lparr>clock := 1000000\<rparr>)))
     = ''1970-01-01T00:00:02''
   \<and> fst (generate_unique_params demo_env 1 3 (empty_world\<lparr>clock := 0\<rparr>))
     \<noteq> fst (generate_unique_params demo_env 1 3 (empty_world\<lparr>clock := 1000000\<rparr>))"
proof -
  have i1: "isoformat_utc 1 = ''1970-01-01T00:00:01''"
    by code_simp
  have i2: "isoformat_utc 2 = ''1970-01-01T00:00:02''"
    by code_simp
  have a: "creation_time (fst (generate_unique_params demo_env 1 3 (empty_world\<lparr>clock := 0\<rparr>)))
      = ''1970-01-01T00:00:01''"
    by (simp add: creation_time_generate demo_env_def i1)
  have b: "creation_time (fst (generate_unique_params demo_env 1 3 (empty_world\<lparr>clock := 1000000\<rparr>)))
      = ''1970-01-01T00:00:02''"
    by (simp add: creation_time_generate demo_env_def i2)
  have "creation_time (fst (generate_unique_params demo_env 1 3 (empty_world\<lparr>clock := 0\<rparr>)))
     \<noteq> creation_time (fst (generate_unique_params demo_env 1 3 (empty_world\<lparr>clock := 1000000\<rparr>)))"
    unfolding a b by simp
  then have "fst (generate_unique_params demo_env 1 3 (empty_world\<lparr>clock := 0\<rparr>))
     \<noteq> fst (generate_unique_params demo_env 1 3 (empty_world\<lparr>clock := 1000000\<rparr>))"
    by (rule contrapos_nn) simp
  with a b show ?thesis by simp
qed


section \<open>The retention sweep and the task store\<close>









section \<open>Downloads\<close>



text \<open>
  C10. The answer of the single-file download is decided by the disk alone: replacing the
  task store by any other gives the same answer, so a task without a record whose
  directory survives is served. The answer is 404 exactly when the task directory or the
  named file in it does not exist, and the file response otherwise.
\<close>

theorem download_file_by_disk_only:
  "fst (download_file task_id filename (w\<lparr>active_tasks := tasks\<rparr>)) =
     fst (download_file task_id filename w)
   \<and> fst (download_file task_id filename w) =
       (if \<not> path_exists (disk w) (output_dir @ [task_id])
        then Inl (HTTPException 404 TaskNotFound)
        else if \<not> path_exists (disk w) (output_dir @ [task_id] @ [filename])
        then Inl (HTTPException 404 FileNotFound)
        else Inr \<lparr>fr_path = output_dir @ [task_id] @ [filename], fr_filename = filename,
                  fr_media_type = ''application/octet-stream''\<rparr>)
   \<and> ((\<exists>d. fst (download_file task_id filename w) = Inl (HTTPException 404 d)) =
        (\<not> path_exists (disk w) (output_dir @ [task_id])
         \<or> \<not> path_exists (disk w) (output_dir @ [task_id] @ [filename])))"
  by (simp add: download_file_def Let_def get_task_files_def split: option.splits)

text \<open>Task \<open>old\<close> with its record dropped from the store: its video is still served.\<close>

theorem download_file_by_disk_only_witness:
  "map_of (active_tasks (sweep_world\<lparr>active_tasks := []\<rparr>)) ''old'' = None
   \<and> fst (download_file ''old'' ''video_001.mp4'' (sweep_world\<lparr>active_tasks := []\<rparr>)) =
       Inr \<lparr>fr_path = [''outputs'', ''old'', ''video_001.mp4''], fr_filename = ''video_001.mp4'',
            fr_media_type = ''application/octet-stream''\<rparr>
   \<and> fst (download_file ''old'' ''video_002.mp4'' (sweep_world\<lparr>active_tasks := []\<rparr>)) =
       Inl (HTTPException 404 FileNotFound)"
proof -
  have e1: "path_exists (disk sweep_world) (output_dir @ [''old''])"
    by code_simp
  have e2: "path_exists (disk sweep_world) (output_dir @ [''old''] @ [''video_001.mp4''])"
    by code_simp
  have e3: "\<not> path_exists (disk sweep_world) (output_dir @ [''old''] @ [''video_002.mp4''])"
    by code_simp
  have p: "output_dir @ [''old''] @ [''video_001.mp4''] = [''outputs'', ''old'', ''video_001.mp4'']"
    by (simp add: output_dir_def)
  from download_file_by_disk_only
         [where task_id = "''old''" and filename = "''video_001.mp4''" and w = sweep_world and tasks = "[]"]
       download_file_by_disk_only
         [where task_id = "''old''" and filename = "''video_002.mp4''" and w = sweep_world and tasks = "[]"]
       e1 e2 e3 p
  show ?thesis by simp
qed

section \<open>The archive\<close>





section \<open>Removing a task\<close>


lemma rmtree_keeps_locked: "rmtree fs d = Inr fs' \<Longrightarrow> locked fs' = locked fs"
  by (auto simp: rmtree_def split: option.splits node.splits list.splits)






















end
